theory Spec2Isabelle
  imports Complex_Main "HOL-Library.Sublist"
begin

section \<open>Python values\<close>

text \<open>
  The site descriptors are read from the configuration file and the result record is a
  Python dict whose cells hold numbers or sentinel strings, so both are dynamically typed.
  A cell or a descriptor value is a \<open>pyval\<close>. Floats are idealised as reals (exact
  arithmetic, no NaN, no infinities); sequences and mappings as descriptor values are outside
  the model. Strings are byte strings: whitespace, digits and letter case are the ASCII ones.
\<close>

datatype pyval = PNone | PBool bool | PInt int | PFloat real | PStr string

datatype exn = TypeError | ValueError | OtherException string

text \<open>
  A \<open>datetime\<close> is its wall-clock reading in microseconds since the epoch and its UTC
  offset, \<open>None\<close> for a naive value. The library functions that format a float, format a
  \<open>datetime\<close> and split a URL are taken as parameters; \<open>urlparse_netloc\<close> is \<open>None\<close> where
  \<open>urlparse\<close> raises.
\<close>

record datetime =
  wall_us :: int
  utcoffset_us :: "int option"

record pylib =
  float_repr :: "real \<Rightarrow> string"
  isoformat :: "datetime \<Rightarrow> string"
  urlparse_netloc :: "string \<Rightarrow> string option"

subsection \<open>Truthiness, \<open>int()\<close>, \<open>str()\<close>\<close>

fun py_bool :: "pyval \<Rightarrow> bool" where
  "py_bool PNone = False"
| "py_bool (PBool b) = b"
| "py_bool (PInt i) = (i \<noteq> 0)"
| "py_bool (PFloat x) = (x \<noteq> 0)"
| "py_bool (PStr s) = (s \<noteq> [])"

definition is_space :: "char \<Rightarrow> bool" where
  "is_space c = (c \<in> set [CHR 0x20, CHR 0x09, CHR 0x0A, CHR 0x0B, CHR 0x0C, CHR 0x0D,
                            CHR 0x1C, CHR 0x1D, CHR 0x1E, CHR 0x1F])"

definition py_strip :: "string \<Rightarrow> string" where
  "py_strip s = rev (dropWhile is_space (rev (dropWhile is_space s)))"

definition is_digit :: "char \<Rightarrow> bool" where
  "is_digit c = (48 \<le> (of_char c :: nat) \<and> (of_char c :: nat) \<le> 57)"

definition digit_val :: "char \<Rightarrow> nat" where
  "digit_val c = of_char c - 48"

text \<open>Digits after the first one; a single underscore may separate two digits.\<close>

fun parse_digits :: "nat \<Rightarrow> string \<Rightarrow> nat option" where
  "parse_digits acc [] = Some acc"
| "parse_digits acc [c] = (if is_digit c then Some (acc * 10 + digit_val c) else None)"
| "parse_digits acc (c # d # ds) =
     (if is_digit c then parse_digits (acc * 10 + digit_val c) (d # ds)
      else if c = CHR ''_'' \<and> is_digit d then parse_digits (acc * 10 + digit_val d) ds
      else None)"

definition parse_unsigned :: "string \<Rightarrow> nat option" where
  "parse_unsigned s =
     (case s of [] \<Rightarrow> None
      | c # cs \<Rightarrow> if is_digit c then parse_digits (digit_val c) cs else None)"

definition int_of_str :: "string \<Rightarrow> int option" where
  "int_of_str s =
     (case py_strip s of [] \<Rightarrow> None
      | c # cs \<Rightarrow>
          if c = CHR ''-'' then map_option (\<lambda>n. - int n) (parse_unsigned cs)
          else if c = CHR ''+'' then map_option int (parse_unsigned cs)
          else map_option int (parse_unsigned (c # cs)))"

fun py_int :: "pyval \<Rightarrow> exn + int" where
  "py_int PNone = Inl TypeError"
| "py_int (PBool b) = Inr (if b then 1 else 0)"
| "py_int (PInt i) = Inr i"
| "py_int (PFloat x) = Inr (if 0 \<le> x then \<lfloor>x\<rfloor> else \<lceil>x\<rceil>)"
| "py_int (PStr s) = (case int_of_str s of None \<Rightarrow> Inl ValueError | Some i \<Rightarrow> Inr i)"

definition digit_char :: "nat \<Rightarrow> char" where
  "digit_char d = char_of (48 + d)"

fun str_of_nat :: "nat \<Rightarrow> string" where
  "str_of_nat n = (if n < 10 then [digit_char n] else str_of_nat (n div 10) @ [digit_char (n mod 10)])"

declare str_of_nat.simps [simp del]

definition str_of_int :: "int \<Rightarrow> string" where
  "str_of_int i = (if i < 0 then CHR ''-'' # str_of_nat (nat (- i)) else str_of_nat (nat i))"

fun py_str :: "pylib \<Rightarrow> pyval \<Rightarrow> string" where
  "py_str lib PNone = ''None''"
| "py_str lib (PBool b) = (if b then ''True'' else ''False'')"
| "py_str lib (PInt i) = str_of_int i"
| "py_str lib (PFloat x) = float_repr lib x"
| "py_str lib (PStr s) = s"

text \<open>
  \<open>round(x, 2)\<close>: to the nearest hundredth, ties to the even one (on the idealised reals).
\<close>

definition py_round2 :: "real \<Rightarrow> real" where
  "py_round2 x =
     (let y = x * 100; f = \<lfloor>y\<rfloor>; d = y - of_int f
      in (if d < 1 / 2 then of_int f
          else if 1 / 2 < d then of_int (f + 1)
          else if even f then of_int f else of_int (f + 1)) / 100)"

definition ascii_lower :: "char \<Rightarrow> char" where
  "ascii_lower c =
     (if 65 \<le> (of_char c :: nat) \<and> (of_char c :: nat) \<le> 90 then char_of ((of_char c :: nat) + 32) else c)"

definition py_lower :: "string \<Rightarrow> string" where
  "py_lower s = map ascii_lower s"

definition startswith :: "string \<Rightarrow> string \<Rightarrow> bool" where
  "startswith s p = prefix p s"

definition sq :: string where
  "sq = [CHR 0x27]"

subsection \<open>Dictionaries\<close>

type_synonym site = "string \<rightharpoonup> pyval"

definition dict_get :: "site \<Rightarrow> string \<Rightarrow> pyval \<Rightarrow> pyval" where
  "dict_get d k dflt = (case d k of None \<Rightarrow> dflt | Some v \<Rightarrow> v)"

section \<open>Configuration, probe outcomes and the result record\<close>

text \<open>
  The module-level settings that \<open>check_site\<close> reads. \<open>whois_lookup\<close> is \<open>False\<close> when the
  import of the WHOIS package failed and the global was set to \<open>None\<close>.
\<close>

record config =
  DEFAULT_TIMEOUT :: int
  USE_ICMP_BY_DEFAULT :: bool
  RESPONSE_TIME_THRESHOLD :: real
  whois_lookup :: bool

text \<open>
  What the network and the clock answer during the check of one site. A DNS answer carries
  the seconds the lookup took and the text of the first address; a ping reply its
  \<open>is_alive\<close> and its \<open>avg_rtt\<close> (\<open>None\<close> when absent); a certificate its parsed \<open>notAfter\<close>
  in microseconds. \<open>requests\<close> measures \<open>elapsed\<close> as the difference of two readings of a
  monotonic clock, a \<open>timedelta\<close> of whole microseconds. A GET either returns a response,
  raises a \<open>RequestException\<close>, which \<open>check_site\<close> catches, or raises something else,
  which it does not. \<open>expiration_date\<close> of a WHOIS record is a single value or a list of
  values, each \<open>None\<close>, a \<open>datetime\<close> or something else.
\<close>

datatype dns_outcome = DnsRaises | DnsAnswer real string

datatype icmp_outcome = PingRaises | PingHost bool "real option"

record response =
  status_code :: int
  elapsed_us :: nat
  history_len :: nat
  content_len :: nat
  resp_text :: string

datatype http_outcome = RequestException string | UncaughtException exn | Response response

datatype tls_outcome = TlsRaises | TlsCert int

datatype expv = ENone | EDate datetime | EOther

datatype expiration = Scalar expv | Seq "expv list"

datatype whois_outcome = WhoisRaises | WhoisRecord expiration

record probes =
  clock_start_iso :: string
  dns_answer :: dns_outcome
  ping_reply :: icmp_outcome
  http_reply :: http_outcome
  alert_clock :: string
  tls_reply :: tls_outcome
  tls_now_us :: int
  whois_reply :: whois_outcome
  whois_now_us :: int

record results =
  DateTime :: pyval
  Website_Name :: pyval
  URL :: pyval
  Status :: pyval
  Ping_ms :: pyval
  HTTP_Time_ms :: pyval
  DNS_Time_ms :: pyval
  Content_Size_KB :: pyval
  Redirects :: pyval
  Keyword_Check :: pyval
  SSL_Days_Left :: pyval
  SSL_Expiry_Date :: pyval
  Domain_Days_Left :: pyval
  Domain_Expiry_Date :: pyval
  Notes :: pyval

text \<open>
  The calls that leave the process, in the order they are made; \<open>SendEmail\<close> is a call of
  \<open>send_email\<close> with its subject and body, whose SMTP transport is not modelled.
\<close>

datatype event =
    DnsResolve pyval
  | IcmpPing string
  | HttpGet pyval int
  | TlsConnect pyval
  | WhoisQuery pyval
  | SendEmail string string

record ctx =
  res :: results
  notes_acc :: string
  trace :: "event list"

section \<open>Helpers of the backend\<close>

definition get_hostname :: "pylib \<Rightarrow> pyval \<Rightarrow> pyval" where
  "get_hostname lib url =
     (case url of
        PStr u \<Rightarrow> (case urlparse_netloc lib u of
                     Some netloc \<Rightarrow> PStr (takeWhile (\<lambda>c. c \<noteq> CHR '':'') netloc)
                   | None \<Rightarrow> url)
      | _ \<Rightarrow> url)"

definition day_us :: int where
  "day_us = 86400000000"

definition to_utc :: "datetime \<Rightarrow> datetime" where
  "to_utc d =
     (case utcoffset_us d of
        None \<Rightarrow> d\<lparr>utcoffset_us := Some 0\<rparr>
      | Some off \<Rightarrow> \<lparr>wall_us = wall_us d - off, utcoffset_us = Some 0\<rparr>)"

fun is_datetime :: "expv \<Rightarrow> bool" where
  "is_datetime (EDate d) = True"
| "is_datetime ENone = False"
| "is_datetime EOther = False"

definition get_domain_expiry :: "config \<Rightarrow> int \<Rightarrow> whois_outcome \<Rightarrow> datetime option \<times> pyval" where
  "get_domain_expiry cfg now w =
     (if \<not> whois_lookup cfg then (None, PStr ''N/A'')
      else case w of
        WhoisRaises \<Rightarrow> (None, PStr ''WHOIS Failed'')
      | WhoisRecord e \<Rightarrow>
          (let exp = (case e of
                        Seq xs \<Rightarrow> (case filter is_datetime xs of [] \<Rightarrow> ENone | x # _ \<Rightarrow> x)
                      | Scalar v \<Rightarrow> v)
           in case exp of
                EDate d \<Rightarrow> (Some (to_utc d), PInt ((wall_us (to_utc d) - now) div day_us))
              | _ \<Rightarrow> (None, PStr ''N/A'')))"

definition send_email :: "string \<Rightarrow> string \<Rightarrow> ctx \<Rightarrow> ctx" where
  "send_email subject body c = c\<lparr>trace := trace c @ [SendEmail subject body]\<rparr>"

section \<open>The check of one site\<close>

definition initial_results :: "probes \<Rightarrow> pyval \<Rightarrow> pyval \<Rightarrow> results" where
  "initial_results p name url =
     \<lparr>DateTime = PStr (clock_start_iso p), Website_Name = name, URL = url,
      Status = PStr ''Down'', Ping_ms = PStr ''Failed'', HTTP_Time_ms = PStr ''Failed'',
      DNS_Time_ms = PStr ''Failed'', Content_Size_KB = PStr ''Failed'', Redirects = PInt 0,
      Keyword_Check = PStr ''Skipped'', SSL_Days_Left = PStr ''N/A'',
      SSL_Expiry_Date = PStr ''N/A'', Domain_Days_Left = PStr ''N/A'',
      Domain_Expiry_Date = PStr ''N/A'', Notes = PStr []\<rparr>"

definition dns_probe :: "probes \<Rightarrow> pyval \<Rightarrow> ctx \<Rightarrow> string option \<times> ctx" where
  "dns_probe p hostname c =
     (let c1 = c\<lparr>trace := trace c @ [DnsResolve hostname]\<rparr>
      in case dns_answer p of
           DnsAnswer secs ip \<Rightarrow>
             (Some ip, c1\<lparr>res := (res c1)\<lparr>DNS_Time_ms := PFloat (py_round2 (secs * 1000))\<rparr>\<rparr>)
         | DnsRaises \<Rightarrow>
             (None, c1\<lparr>notes_acc := notes_acc c1 @ ''DNS lookup failed. '',
                       res := (res c1)\<lparr>DNS_Time_ms := PStr ''Failed''\<rparr>\<rparr>))"

text \<open>\<open>use_icmp and ip_addr\<close>: the address counts when it is neither \<open>None\<close> nor empty.\<close>

definition icmp_probe :: "probes \<Rightarrow> bool \<Rightarrow> string option \<Rightarrow> ctx \<Rightarrow> ctx" where
  "icmp_probe p use_icmp ip_addr c =
     (case (if use_icmp then ip_addr else None) of
        Some (a # as) \<Rightarrow>
          (let c1 = c\<lparr>trace := trace c @ [IcmpPing (a # as)]\<rparr>
           in case ping_reply p of
                PingHost is_alive avg_rtt \<Rightarrow>
                  (case avg_rtt of
                     Some rtt \<Rightarrow>
                       if is_alive then c1\<lparr>res := (res c1)\<lparr>Ping_ms := PFloat (py_round2 rtt)\<rparr>\<rparr>
                       else c1\<lparr>res := (res c1)\<lparr>Ping_ms := PStr ''Failed''\<rparr>\<rparr>
                   | None \<Rightarrow> c1\<lparr>res := (res c1)\<lparr>Ping_ms := PStr ''Failed''\<rparr>\<rparr>)
              | PingRaises \<Rightarrow>
                  c1\<lparr>notes_acc := notes_acc c1 @ ''ICMP ping failed. '',
                     res := (res c1)\<lparr>Ping_ms := PStr ''Error''\<rparr>\<rparr>)
      | _ \<Rightarrow> c\<lparr>res := (res c)\<lparr>Ping_ms := PStr ''N/A''\<rparr>\<rparr>)"

definition keyword_check :: "site \<Rightarrow> bool \<Rightarrow> response \<Rightarrow> ctx \<Rightarrow> ctx" where
  "keyword_check site check_keyword_flag r c =
     (if check_keyword_flag \<and> py_bool (dict_get site ''keyword'' PNone) then
        (case dict_get site ''keyword'' (PStr []) of
           PStr kw \<Rightarrow>
             if sublist (py_lower kw) (py_lower (resp_text r))
             then c\<lparr>res := (res c)\<lparr>Keyword_Check := PStr ''Pass''\<rparr>\<rparr>
             else c\<lparr>res := (res c)\<lparr>Keyword_Check := PStr ''Fail''\<rparr>,
                    notes_acc := notes_acc c @ ''Keyword '' @ sq @ kw @ sq @ '' not found in content. ''\<rparr>
         | _ \<Rightarrow> c\<lparr>res := (res c)\<lparr>Keyword_Check := PStr ''Error''\<rparr>\<rparr>)
      else c)"

definition alert_subject :: "pylib \<Rightarrow> pyval \<Rightarrow> string" where
  "alert_subject lib name = ''Alert: Website '' @ sq @ py_str lib name @ sq @ '' is Down''"

definition unreachable_body :: "pylib \<Rightarrow> probes \<Rightarrow> pyval \<Rightarrow> pyval \<Rightarrow> string \<Rightarrow> string" where
  "unreachable_body lib p name url e =
     ''The website '' @ sq @ py_str lib name @ sq @ '' ('' @ py_str lib url
       @ '') could not be reached at '' @ alert_clock p @ '' due to an HTTP error: '' @ e"

definition status_body :: "pylib \<Rightarrow> probes \<Rightarrow> pyval \<Rightarrow> pyval \<Rightarrow> int \<Rightarrow> string" where
  "status_body lib p name url code =
     ''The website '' @ sq @ py_str lib name @ sq @ '' ('' @ py_str lib url
       @ '') returned a status code of '' @ str_of_int code @ '' at '' @ alert_clock p @ ''. ''"

definition http_probe ::
  "pylib \<Rightarrow> probes \<Rightarrow> site \<Rightarrow> pyval \<Rightarrow> pyval \<Rightarrow> int \<Rightarrow> int \<Rightarrow> bool \<Rightarrow> ctx \<Rightarrow> exn + ctx" where
  "http_probe lib p site name url timeout expected_status check_keyword_flag c =
     (let c1 = c\<lparr>trace := trace c @ [HttpGet url timeout]\<rparr>
      in case http_reply p of
           UncaughtException e \<Rightarrow> Inl e
         | RequestException e \<Rightarrow>
             Inr (send_email (alert_subject lib name) (unreachable_body lib p name url e)
                    (c1\<lparr>res := (res c1)\<lparr>Status := PStr ''Down (HTTP Error)''\<rparr>,
                        notes_acc := notes_acc c1 @ ''HTTP request failed. ''\<rparr>))
         | Response r \<Rightarrow>
             (let http_ms = py_round2 (real (elapsed_us r) / 1000000 * 1000);
                  c2 = c1\<lparr>res := (res c1)\<lparr>HTTP_Time_ms := PFloat http_ms,
                             Redirects := PInt (int (history_len r)),
                             Content_Size_KB := PFloat (py_round2 (real (content_len r) / 1024))\<rparr>\<rparr>;
                  c3 = (if status_code r = expected_status
                        then c2\<lparr>res := (res c2)\<lparr>Status := PStr ''Up''\<rparr>\<rparr>
                        else send_email (alert_subject lib name)
                               (status_body lib p name url (status_code r))
                               (c2\<lparr>res := (res c2)\<lparr>Status :=
                                       PStr (''Down ('' @ str_of_int (status_code r) @ '')'')\<rparr>,
                                   notes_acc := notes_acc c2 @ ''Expected status ''
                                       @ str_of_int expected_status @ '', but got ''
                                       @ str_of_int (status_code r) @ ''. ''\<rparr>))
              in Inr (keyword_check site check_keyword_flag r c3)))"

definition ssl_probe :: "pylib \<Rightarrow> probes \<Rightarrow> pyval \<Rightarrow> ctx \<Rightarrow> ctx" where
  "ssl_probe lib p hostname c =
     (let c1 = c\<lparr>trace := trace c @ [TlsConnect hostname]\<rparr>
      in case tls_reply p of
           TlsCert not_after \<Rightarrow>
             c1\<lparr>res := (res c1)\<lparr>
                  SSL_Expiry_Date := PStr (isoformat lib \<lparr>wall_us = not_after, utcoffset_us = Some 0\<rparr>),
                  SSL_Days_Left := PInt ((not_after - tls_now_us p) div day_us)\<rparr>\<rparr>
         | TlsRaises \<Rightarrow>
             c1\<lparr>notes_acc := notes_acc c1 @ ''SSL check failed. '',
                res := (res c1)\<lparr>SSL_Days_Left := PStr ''Failed''\<rparr>\<rparr>)"

definition domain_probe :: "config \<Rightarrow> pylib \<Rightarrow> probes \<Rightarrow> pyval \<Rightarrow> ctx \<Rightarrow> ctx" where
  "domain_probe cfg lib p hostname c =
     (let c1 = (if whois_lookup cfg then c\<lparr>trace := trace c @ [WhoisQuery hostname]\<rparr> else c);
          (exp_dt, days_left_dom) = get_domain_expiry cfg (whois_now_us p) (whois_reply p);
          c2 = (case exp_dt of
                  Some d \<Rightarrow> c1\<lparr>res := (res c1)\<lparr>Domain_Expiry_Date := PStr (isoformat lib d)\<rparr>\<rparr>
                | None \<Rightarrow> c1);
          c3 = c2\<lparr>res := (res c2)\<lparr>Domain_Days_Left := days_left_dom\<rparr>\<rparr>
      in if days_left_dom = PStr ''N/A'' \<or> days_left_dom = PStr ''WHOIS Failed''
         then c3\<lparr>notes_acc := notes_acc c3 @ ''Domain check failed: '' @ py_str lib days_left_dom @ ''. ''\<rparr>
         else c3)"

text \<open>
  \<open>isinstance(v, (int, float))\<close> also accepts a \<open>bool\<close>; a Status that is no string would make
  \<open>startswith\<close> raise, which the \<open>try\<close> swallows.
\<close>

definition numeric_of :: "pyval \<Rightarrow> real option" where
  "numeric_of v =
     (case v of PFloat x \<Rightarrow> Some x | PInt i \<Rightarrow> Some (of_int i)
      | PBool b \<Rightarrow> Some (if b then 1 else 0) | _ \<Rightarrow> None)"

definition mark_slow :: "config \<Rightarrow> ctx \<Rightarrow> ctx" where
  "mark_slow cfg c =
     (case numeric_of (HTTP_Time_ms (res c)) of
        Some x \<Rightarrow>
          if RESPONSE_TIME_THRESHOLD cfg < x then
            (case Status (res c) of
               PStr s \<Rightarrow> if startswith s ''Up''
                         then c\<lparr>res := (res c)\<lparr>Status := PStr ''Up (Slow)''\<rparr>\<rparr> else c
             | _ \<Rightarrow> c)
          else c
      | None \<Rightarrow> c)"

text \<open>
  \<open>check_site\<close> is cut in two at the end of its HTTP block, so that the Status the HTTP
  probe derives can be named. \<open>Inl\<close> is an exception that leaves \<open>check_site\<close>,
  \<open>Inr None\<close> the early \<open>return None\<close> of a disabled site.
\<close>

definition check_site_to_http :: "config \<Rightarrow> pylib \<Rightarrow> site \<Rightarrow> probes \<Rightarrow> exn + ctx option" where
  "check_site_to_http cfg lib site p =
     (let name = dict_get site ''name'' (PStr []);
          url = dict_get site ''url'' (PStr []);
          enabled = py_bool (dict_get site ''enabled'' (PBool True))
      in if \<not> enabled then Inr None
         else case py_int (dict_get site ''timeout'' (PInt (DEFAULT_TIMEOUT cfg))) of
           Inl e \<Rightarrow> Inl e
         | Inr timeout \<Rightarrow>
             (let use_icmp = py_bool (dict_get site ''use_icmp'' (PBool (USE_ICMP_BY_DEFAULT cfg)))
              in case py_int (dict_get site ''expected_status'' (PInt 200)) of
                   Inl e \<Rightarrow> Inl e
                 | Inr expected_status \<Rightarrow>
                     (let check_keyword_flag =
                            py_bool (dict_get site ''check_keyword''
                                       (PBool (py_bool (dict_get site ''keyword'' PNone))));
                          c0 = \<lparr>res = initial_results p name url, notes_acc = [], trace = []\<rparr>;
                          hostname = get_hostname lib url;
                          (ip_addr, c1) = dns_probe p hostname c0;
                          c2 = icmp_probe p use_icmp ip_addr c1
                      in case http_probe lib p site name url timeout expected_status
                                check_keyword_flag c2 of
                           Inl e \<Rightarrow> Inl e
                         | Inr c3 \<Rightarrow> Inr (Some c3))))"

text \<open>The rest of \<open>check_site\<close>, from the SSL block to the \<open>return\<close>.\<close>

definition check_site_from_ssl ::
  "config \<Rightarrow> pylib \<Rightarrow> site \<Rightarrow> probes \<Rightarrow> ctx \<Rightarrow> results \<times> event list" where
  "check_site_from_ssl cfg lib site p c3 =
     (let hostname = get_hostname lib (dict_get site ''url'' (PStr []));
          c4 = ssl_probe lib p hostname c3;
          c5 = domain_probe cfg lib p hostname c4;
          c6 = mark_slow cfg c5
      in ((res c6)\<lparr>Notes := PStr (py_strip (notes_acc c6))\<rparr>, trace c6))"

definition check_site ::
  "config \<Rightarrow> pylib \<Rightarrow> site \<Rightarrow> probes \<Rightarrow> exn + (results \<times> event list) option" where
  "check_site cfg lib site p =
     (case check_site_to_http cfg lib site p of
        Inl e \<Rightarrow> Inl e
      | Inr None \<Rightarrow> Inr None
      | Inr (Some c3) \<Rightarrow> Inr (Some (check_site_from_ssl cfg lib site p c3)))"

section \<open>One round\<close>

text \<open>
  The loop of \<open>run_checks_and_log\<close> over the configured sites, each paired with what the
  network answers while it is checked. The value is the list \<open>rows\<close> handed to the CSV
  writer: a disabled site is skipped, and a site whose check raises is logged and left out.
\<close>

fun run_checks_and_log :: "config \<Rightarrow> pylib \<Rightarrow> (site \<times> probes) list \<Rightarrow> results list" where
  "run_checks_and_log cfg lib [] = []"
| "run_checks_and_log cfg lib ((site, p) # rest) =
     (case check_site cfg lib site p of
        Inl e \<Rightarrow> run_checks_and_log cfg lib rest
      | Inr None \<Rightarrow> run_checks_and_log cfg lib rest
      | Inr (Some (r, t)) \<Rightarrow> r # run_checks_and_log cfg lib rest)"

section \<open>Reading a record and a trace\<close>

text \<open>A note is in a cell when the cell is a string that contains it.\<close>

definition note_in :: "string \<Rightarrow> pyval \<Rightarrow> bool" where
  "note_in x v = (case v of PStr s \<Rightarrow> sublist x s | _ \<Rightarrow> False)"

fun is_ping :: "event \<Rightarrow> bool" where
  "is_ping (IcmpPing ip) = True"
| "is_ping (DnsResolve h) = False"
| "is_ping (HttpGet u n) = False"
| "is_ping (TlsConnect h) = False"
| "is_ping (WhoisQuery h) = False"
| "is_ping (SendEmail s b) = False"

text \<open>The two preconditions of the reachability probe, as \<open>check_site\<close> computes them.\<close>

definition use_icmp_of :: "config \<Rightarrow> site \<Rightarrow> bool" where
  "use_icmp_of cfg site = py_bool (dict_get site ''use_icmp'' (PBool (USE_ICMP_BY_DEFAULT cfg)))"

definition ip_resolved :: "probes \<Rightarrow> bool" where
  "ip_resolved p = (case dns_answer p of DnsAnswer secs ip \<Rightarrow> ip \<noteq> [] | DnsRaises \<Rightarrow> False)"

text \<open>The Status that the HTTP block leaves, before the slow mark is considered.\<close>

definition http_status :: "config \<Rightarrow> pylib \<Rightarrow> site \<Rightarrow> probes \<Rightarrow> pyval" where
  "http_status cfg lib site p =
     (case check_site_to_http cfg lib site p of Inr (Some c3) \<Rightarrow> Status (res c3) | _ \<Rightarrow> PNone)"

section \<open>The domain expiry probe as the specification words it\<close>



section \<open>Example inputs\<close>

definition ex_cfg :: config where
  "ex_cfg = \<lparr>DEFAULT_TIMEOUT = 10, USE_ICMP_BY_DEFAULT = True,
             RESPONSE_TIME_THRESHOLD = 3000, whois_lookup = True\<rparr>"

definition ex_lib :: pylib where
  "ex_lib = \<lparr>float_repr = (\<lambda>x. ''0.0''),
             isoformat = (\<lambda>d. ''2030-01-01T00:00:00+00:00''),
             urlparse_netloc = (\<lambda>u. Some (takeWhile (\<lambda>c. c \<noteq> CHR ''/'') (drop 8 u)))\<rparr>"

definition ex_site :: site where
  "ex_site = [''name'' \<mapsto> PStr ''forest'', ''url'' \<mapsto> PStr ''https://example.org/home'',
              ''use_icmp'' \<mapsto> PBool True, ''expected_status'' \<mapsto> PInt 200,
              ''keyword'' \<mapsto> PStr ''Odisha'', ''check_keyword'' \<mapsto> PBool True]"

definition ex_resp :: response where
  "ex_resp = \<lparr>status_code = 200, elapsed_us = 50123, history_len = 0, content_len = 2048,
              resp_text = ''Welcome to ODISHA forest''\<rparr>"

definition ex_up :: probes where
  "ex_up = \<lparr>clock_start_iso = ''2025-01-01T00:00:00+00:00'',
            dns_answer = DnsAnswer (1 / 100) ''93.184.216.34'',
            ping_reply = PingHost True (Some (12346 / 1000)),
            http_reply = Response ex_resp,
            alert_clock = ''2025-01-01 05:30:00'',
            tls_reply = TlsCert 864000000001, tls_now_us = 1,
            whois_reply = WhoisRecord (Seq [ENone, EOther,
                EDate \<lparr>wall_us = 864000000001, utcoffset_us = None\<rparr>,
                EDate \<lparr>wall_us = 5, utcoffset_us = None\<rparr>]),
            whois_now_us = 1\<rparr>"

definition ex_down :: probes where
  "ex_down = ex_up\<lparr>dns_answer := DnsRaises, http_reply := RequestException ''timed out'',
                    tls_reply := TlsRaises, whois_reply := WhoisRaises\<rparr>"

definition ex_row_down :: results where
  "ex_row_down =
     \<lparr>DateTime = PStr ''2025-01-01T00:00:00+00:00'', Website_Name = PStr ''forest'',
      URL = PStr ''https://example.org/home'', Status = PStr ''Down (HTTP Error)'',
      Ping_ms = PStr ''N/A'', HTTP_Time_ms = PStr ''Failed'', DNS_Time_ms = PStr ''Failed'',
      Content_Size_KB = PStr ''Failed'', Redirects = PInt 0, Keyword_Check = PStr ''Skipped'',
      SSL_Days_Left = PStr ''Failed'', SSL_Expiry_Date = PStr ''N/A'',
      Domain_Days_Left = PStr ''WHOIS Failed'', Domain_Expiry_Date = PStr ''N/A'',
      Notes = PStr ''DNS lookup failed. HTTP request failed. SSL check failed. Domain check failed: WHOIS Failed.''\<rparr>"

definition ex_trace_down :: "event list" where
  "ex_trace_down =
     [DnsResolve (PStr ''example.org''), HttpGet (PStr ''https://example.org/home'') 10,
      SendEmail (''Alert: Website '' @ sq @ ''forest'' @ sq @ '' is Down'')
        (''The website '' @ sq @ ''forest'' @ sq @ '' (https://example.org/home) could not be reached at 2025-01-01 05:30:00 due to an HTTP error: timed out''),
      TlsConnect (PStr ''example.org''), WhoisQuery (PStr ''example.org'')]"

definition ex_row_up :: results where
  "ex_row_up =
     \<lparr>DateTime = PStr ''2025-01-01T00:00:00+00:00'', Website_Name = PStr ''forest'',
      URL = PStr ''https://example.org/home'', Status = PStr ''Up'',
      Ping_ms = PFloat (1235 / 100), HTTP_Time_ms = PFloat (5012 / 100), DNS_Time_ms = PFloat 10,
      Content_Size_KB = PFloat 2, Redirects = PInt 0, Keyword_Check = PStr ''Pass'',
      SSL_Days_Left = PInt 10, SSL_Expiry_Date = PStr ''2030-01-01T00:00:00+00:00'',
      Domain_Days_Left = PInt 10, Domain_Expiry_Date = PStr ''2030-01-01T00:00:00+00:00'',
      Notes = PStr []\<rparr>"

definition ex_trace_up :: "event list" where
  "ex_trace_up =
     [DnsResolve (PStr ''example.org''), IcmpPing ''93.184.216.34'',
      HttpGet (PStr ''https://example.org/home'') 10,
      TlsConnect (PStr ''example.org''), WhoisQuery (PStr ''example.org'')]"

definition ex_slow :: probes where
  "ex_slow = ex_up\<lparr>http_reply := Response (ex_resp\<lparr>elapsed_us := 3500000\<rparr>)\<rparr>"

definition ex_row_slow :: results where
  "ex_row_slow = ex_row_up\<lparr>Status := PStr ''Up (Slow)'', HTTP_Time_ms := PFloat 3500\<rparr>"

definition ex_503 :: probes where
  "ex_503 = ex_up\<lparr>http_reply := Response (ex_resp\<lparr>status_code := 503\<rparr>)\<rparr>"

definition ex_row_503 :: results where
  "ex_row_503 = ex_row_up\<lparr>Status := PStr ''Down (503)'',
                           Notes := PStr ''Expected status 200, but got 503.''\<rparr>"

definition ex_trace_503 :: "event list" where
  "ex_trace_503 =
     [DnsResolve (PStr ''example.org''), IcmpPing ''93.184.216.34'',
      HttpGet (PStr ''https://example.org/home'') 10,
      SendEmail (''Alert: Website '' @ sq @ ''forest'' @ sq @ '' is Down'')
        (''The website '' @ sq @ ''forest'' @ sq @ '' (https://example.org/home) returned a status code of 503 at 2025-01-01 05:30:00. ''),
      TlsConnect (PStr ''example.org''), WhoisQuery (PStr ''example.org'')]"

definition ex_pingerr :: probes where
  "ex_pingerr = ex_up\<lparr>ping_reply := PingRaises\<rparr>"

definition ex_row_pingerr :: results where
  "ex_row_pingerr = ex_row_up\<lparr>Ping_ms := PStr ''Error'', Notes := PStr ''ICMP ping failed.''\<rparr>"

definition ex_site_disabled :: site where
  "ex_site_disabled = ex_site(''enabled'' \<mapsto> PBool False)"

definition ex_nodate :: probes where
  "ex_nodate = ex_up\<lparr>whois_reply := WhoisRecord (Seq [ENone, EOther])\<rparr>"

definition ex_row_nodate :: results where
  "ex_row_nodate = ex_row_up\<lparr>Domain_Days_Left := PStr ''N/A'', Domain_Expiry_Date := PStr ''N/A'',
                              Notes := PStr ''Domain check failed: N/A.''\<rparr>"

section \<open>What each block of \<open>check_site\<close> reads and writes\<close>


lemma check_site_Some:
  "check_site cfg lib site p = Inr (Some rt) \<longleftrightarrow>
     (\<exists>c3. check_site_to_http cfg lib site p = Inr (Some c3) \<and> rt = check_site_from_ssl cfg lib site p c3)"
  by (auto simp: check_site_def split: sum.splits option.splits)

lemma mark_slow_fields [simp]:
  "HTTP_Time_ms (res (mark_slow cfg c)) = HTTP_Time_ms (res c)"
  "Ping_ms (res (mark_slow cfg c)) = Ping_ms (res c)"
  "Redirects (res (mark_slow cfg c)) = Redirects (res c)"
  "Keyword_Check (res (mark_slow cfg c)) = Keyword_Check (res c)"
  "Domain_Days_Left (res (mark_slow cfg c)) = Domain_Days_Left (res c)"
  "Domain_Expiry_Date (res (mark_slow cfg c)) = Domain_Expiry_Date (res c)"
  "notes_acc (mark_slow cfg c) = notes_acc c"
  "trace (mark_slow cfg c) = trace c"
  by (simp_all add: mark_slow_def split: option.splits pyval.splits)

lemma ssl_probe_fields [simp]:
  "HTTP_Time_ms (res (ssl_probe lib p h c)) = HTTP_Time_ms (res c)"
  "Status (res (ssl_probe lib p h c)) = Status (res c)"
  "Ping_ms (res (ssl_probe lib p h c)) = Ping_ms (res c)"
  "Redirects (res (ssl_probe lib p h c)) = Redirects (res c)"
  "Keyword_Check (res (ssl_probe lib p h c)) = Keyword_Check (res c)"
  "Domain_Days_Left (res (ssl_probe lib p h c)) = Domain_Days_Left (res c)"
  "Domain_Expiry_Date (res (ssl_probe lib p h c)) = Domain_Expiry_Date (res c)"
  by (simp_all add: ssl_probe_def Let_def split: tls_outcome.splits)

lemma domain_probe_fields [simp]:
  "HTTP_Time_ms (res (domain_probe cfg lib p h c)) = HTTP_Time_ms (res c)"
  "Status (res (domain_probe cfg lib p h c)) = Status (res c)"
  "Ping_ms (res (domain_probe cfg lib p h c)) = Ping_ms (res c)"
  "Redirects (res (domain_probe cfg lib p h c)) = Redirects (res c)"
  "Keyword_Check (res (domain_probe cfg lib p h c)) = Keyword_Check (res c)"
  by (simp_all add: domain_probe_def Let_def split: prod.splits option.splits)
lemma sublist_append_right: "sublist x ys \<Longrightarrow> sublist x (ys @ zs)"
  by (metis sublist_def append.assoc)

lemma dropWhile_keeps:
  "xs \<noteq> [] \<Longrightarrow> \<not> P (hd xs) \<Longrightarrow> \<exists>ps'. dropWhile P (ps @ xs @ ss) = ps' @ xs @ ss"
proof (induction ps)
  case Nil
  then show ?case by (cases xs) auto
next
  case (Cons a ps)
  then obtain ps' where "dropWhile P (ps @ xs @ ss) = ps' @ xs @ ss" by blast
  then show ?case by (cases "P a") (auto intro: exI [of _ "a # ps"])
qed

lemma sublist_py_strip:
  assumes "xs \<noteq> []" "\<not> is_space (hd xs)" "\<not> is_space (last xs)" "sublist xs ys"
  shows "sublist xs (py_strip ys)"
proof -
  from assms(4) obtain ps ss where ys: "ys = ps @ xs @ ss" by (auto simp: sublist_def)
  from assms(1,2) obtain ps' where
    1: "dropWhile is_space (ps @ xs @ ss) = ps' @ xs @ ss"
    using dropWhile_keeps [where xs = xs and P = is_space and ps = ps and ss = ss] by blast
  have "rev xs \<noteq> []" "\<not> is_space (hd (rev xs))"
    using assms(1,3) by (simp_all add: hd_rev)
  then obtain ss' where
    2: "dropWhile is_space (rev ss @ rev xs @ rev ps') = ss' @ rev xs @ rev ps'"
    using dropWhile_keeps [where xs = "rev xs" and P = is_space and ps = "rev ss" and ss = "rev ps'"] by blast
  have "py_strip ys = ps' @ xs @ rev ss'"
    by (simp add: py_strip_def ys 1 2)
  then show ?thesis by (auto simp: sublist_def)
qed

lemma ssl_probe_notes: "sublist x (notes_acc c) \<Longrightarrow> sublist x (notes_acc (ssl_probe lib p h c))"
  by (auto simp: ssl_probe_def Let_def sublist_append_rightI split: tls_outcome.splits intro: sublist_order.order_trans)

lemma ssl_probe_trace [simp]: "trace (ssl_probe lib p h c) = trace c @ [TlsConnect h]"
  by (simp add: ssl_probe_def Let_def split: tls_outcome.splits)

lemma domain_probe_trace [simp]:
  "trace (domain_probe cfg lib p h c) = trace c @ (if whois_lookup cfg then [WhoisQuery h] else [])"
  by (simp add: domain_probe_def Let_def split: prod.splits option.splits)

lemma domain_probe_days [simp]:
  "Domain_Days_Left (res (domain_probe cfg lib p h c)) = snd (get_domain_expiry cfg (whois_now_us p) (whois_reply p))"
  by (simp add: domain_probe_def Let_def split: prod.splits option.splits)

lemma domain_probe_date [simp]:
  "Domain_Expiry_Date (res (domain_probe cfg lib p h c)) =
     (case fst (get_domain_expiry cfg (whois_now_us p) (whois_reply p)) of
        Some d \<Rightarrow> PStr (isoformat lib d) | None \<Rightarrow> Domain_Expiry_Date (res c))"
  by (simp add: domain_probe_def Let_def split: prod.splits option.splits)

lemma keyword_check_fields [simp]:
  "HTTP_Time_ms (res (keyword_check site f r c)) = HTTP_Time_ms (res c)"
  "Status (res (keyword_check site f r c)) = Status (res c)"
  "Ping_ms (res (keyword_check site f r c)) = Ping_ms (res c)"
  "Redirects (res (keyword_check site f r c)) = Redirects (res c)"
  "Domain_Expiry_Date (res (keyword_check site f r c)) = Domain_Expiry_Date (res c)"
  "trace (keyword_check site f r c) = trace c"
  by (simp_all add: keyword_check_def split: pyval.splits)

lemma icmp_probe_fields [simp]:
  "HTTP_Time_ms (res (icmp_probe p u ip c)) = HTTP_Time_ms (res c)"
  "Status (res (icmp_probe p u ip c)) = Status (res c)"
  "Redirects (res (icmp_probe p u ip c)) = Redirects (res c)"
  "Keyword_Check (res (icmp_probe p u ip c)) = Keyword_Check (res c)"
  "Domain_Expiry_Date (res (icmp_probe p u ip c)) = Domain_Expiry_Date (res c)"
  by (simp_all add: icmp_probe_def Let_def split: option.splits list.splits icmp_outcome.splits)

lemma dns_probe_fields [simp]:
  "HTTP_Time_ms (res (snd (dns_probe p h c))) = HTTP_Time_ms (res c)"
  "Status (res (snd (dns_probe p h c))) = Status (res c)"
  "Redirects (res (snd (dns_probe p h c))) = Redirects (res c)"
  "Keyword_Check (res (snd (dns_probe p h c))) = Keyword_Check (res c)"
  "Ping_ms (res (snd (dns_probe p h c))) = Ping_ms (res c)"
  "Domain_Expiry_Date (res (snd (dns_probe p h c))) = Domain_Expiry_Date (res c)"
  "trace (snd (dns_probe p h c)) = trace c @ [DnsResolve h]"
  "fst (dns_probe p h c) = (case dns_answer p of DnsAnswer secs ip \<Rightarrow> Some ip | DnsRaises \<Rightarrow> None)"
  by (simp_all add: dns_probe_def Let_def split: dns_outcome.splits)

lemma keyword_check_notes:
  "sublist x (notes_acc c) \<Longrightarrow> sublist x (notes_acc (keyword_check site f r c))"
  by (auto simp: keyword_check_def sublist_append_right split: pyval.splits)

lemma http_probe_RequestException:
  assumes "http_reply p = RequestException e"
  shows "http_probe lib p site name url timeout expected flag c =
     Inr (c\<lparr>trace := trace c @ [HttpGet url timeout, SendEmail (alert_subject lib name) (unreachable_body lib p name url e)],
            res := (res c)\<lparr>Status := PStr ''Down (HTTP Error)''\<rparr>,
            notes_acc := notes_acc c @ ''HTTP request failed. ''\<rparr>)"
  using assms by (simp add: http_probe_def Let_def send_email_def)

lemma http_probe_Uncaught:
  "http_reply p = UncaughtException e \<Longrightarrow> http_probe lib p site name url timeout expected flag c = Inl e"
  by (simp add: http_probe_def Let_def)

lemma http_probe_Response:
  assumes "http_reply p = Response r" "http_probe lib p site name url timeout expected flag c = Inr c3"
  shows "HTTP_Time_ms (res c3) = PFloat (py_round2 (real (elapsed_us r) / 1000000 * 1000))"
    and "Redirects (res c3) = PInt (int (history_len r))"
    and "Ping_ms (res c3) = Ping_ms (res c)"
    and "Status (res c3) = (if status_code r = expected then PStr ''Up''
           else PStr (''Down ('' @ str_of_int (status_code r) @ '')''))"
    and "status_code r \<noteq> expected \<Longrightarrow>
           SendEmail (alert_subject lib name) (status_body lib p name url (status_code r)) \<in> set (trace c3)"
    and "status_code r \<noteq> expected \<Longrightarrow>
           sublist (''Expected status '' @ str_of_int expected @ '', but got '' @ str_of_int (status_code r) @ ''.'') (notes_acc c3)"
    and "filter is_ping (trace c3) = filter is_ping (trace c)"
    and "sublist x (notes_acc c) \<Longrightarrow> sublist x (notes_acc c3)"
    and "Domain_Expiry_Date (res c3) = Domain_Expiry_Date (res c)"
proof -
  define c2 where "c2 = c\<lparr>trace := trace c @ [HttpGet url timeout],
      res := (res c)\<lparr>HTTP_Time_ms := PFloat (py_round2 (real (elapsed_us r) / 1000000 * 1000)),
                     Redirects := PInt (int (history_len r)),
                     Content_Size_KB := PFloat (py_round2 (real (content_len r) / 1024))\<rparr>\<rparr>"
  define cs where "cs = (if status_code r = expected
                        then c2\<lparr>res := (res c2)\<lparr>Status := PStr ''Up''\<rparr>\<rparr>
                        else send_email (alert_subject lib name)
                               (status_body lib p name url (status_code r))
                               (c2\<lparr>res := (res c2)\<lparr>Status :=
                                       PStr (''Down ('' @ str_of_int (status_code r) @ '')'')\<rparr>,
                                   notes_acc := notes_acc c2 @ ''Expected status ''
                                       @ str_of_int expected @ '', but got ''
                                       @ str_of_int (status_code r) @ ''. ''\<rparr>))"
  have "http_probe lib p site name url timeout expected flag c = Inr (keyword_check site flag r cs)"
    using assms(1) by (simp add: http_probe_def Let_def cs_def c2_def)
  with assms(2) have c3: "c3 = keyword_check site flag r cs"
    by simp
  show "HTTP_Time_ms (res c3) = PFloat (py_round2 (real (elapsed_us r) / 1000000 * 1000))"
    by (simp add: c3 cs_def c2_def send_email_def)
  show "Redirects (res c3) = PInt (int (history_len r))"
    by (simp add: c3 cs_def c2_def send_email_def)
  show "Ping_ms (res c3) = Ping_ms (res c)"
    by (simp add: c3 cs_def c2_def send_email_def)
  show "Domain_Expiry_Date (res c3) = Domain_Expiry_Date (res c)"
    by (simp add: c3 cs_def c2_def send_email_def)
  show "Status (res c3) = (if status_code r = expected then PStr ''Up''
           else PStr (''Down ('' @ str_of_int (status_code r) @ '')''))"
    by (simp add: c3 cs_def c2_def send_email_def)
  show "SendEmail (alert_subject lib name) (status_body lib p name url (status_code r)) \<in> set (trace c3)"
    if "status_code r \<noteq> expected"
    using that by (simp add: c3 cs_def c2_def send_email_def)
  show "filter is_ping (trace c3) = filter is_ping (trace c)"
    by (simp add: c3 cs_def c2_def send_email_def)
  have n2: "notes_acc c2 = notes_acc c" by (simp add: c2_def)
  show "sublist (''Expected status '' @ str_of_int expected @ '', but got '' @ str_of_int (status_code r) @ ''.'') (notes_acc c3)"
    if "status_code r \<noteq> expected"
  proof -
    have "notes_acc cs = notes_acc c @ (''Expected status '' @ str_of_int expected @ '', but got ''
            @ str_of_int (status_code r) @ ''.'') @ '' ''"
      using that by (simp add: cs_def send_email_def n2)
    then have "sublist (''Expected status '' @ str_of_int expected @ '', but got '' @ str_of_int (status_code r) @ ''.'') (notes_acc cs)"
      by (simp only: sublist_appendI)
    then show ?thesis unfolding c3 by (rule keyword_check_notes)
  qed
  show "sublist x (notes_acc c3)" if "sublist x (notes_acc c)"
  proof -
    have "sublist x (notes_acc cs)"
      using that by (auto simp: cs_def send_email_def n2 sublist_append_right)
    then show ?thesis unfolding c3 by (rule keyword_check_notes)
  qed
qed

lemma icmp_probe_Ping:
  "Ping_ms (res (icmp_probe p u ip c)) =
     (case (if u then ip else None) of
        Some (a # as) \<Rightarrow>
          (case ping_reply p of
             PingHost alive (Some rtt) \<Rightarrow> if alive then PFloat (py_round2 rtt) else PStr ''Failed''
           | PingHost alive None \<Rightarrow> PStr ''Failed''
           | PingRaises \<Rightarrow> PStr ''Error'')
      | _ \<Rightarrow> PStr ''N/A'')"
  by (simp add: icmp_probe_def Let_def split: option.splits list.splits icmp_outcome.splits)

lemma icmp_probe_trace:
  "trace (icmp_probe p u ip c) =
     trace c @ (case (if u then ip else None) of Some (a # as) \<Rightarrow> [IcmpPing (a # as)] | _ \<Rightarrow> [])"
  by (simp add: icmp_probe_def Let_def split: option.splits list.splits icmp_outcome.splits)

lemma icmp_probe_Error_note:
  assumes "Ping_ms (res (icmp_probe p u ip c)) = PStr ''Error''"
  shows "sublist ''ICMP ping failed.'' (notes_acc (icmp_probe p u ip c))"
proof -
  from assms have "notes_acc (icmp_probe p u ip c) = notes_acc c @ ''ICMP ping failed.'' @ '' ''"
    by (auto simp: icmp_probe_def Let_def split: option.splits list.splits icmp_outcome.splits if_splits)
  then show ?thesis by (simp only: sublist_appendI)
qed

lemma mark_slow_Status:
  "Status (res (mark_slow cfg c)) =
     (case numeric_of (HTTP_Time_ms (res c)) of
        Some x \<Rightarrow>
          if RESPONSE_TIME_THRESHOLD cfg < x then
            (case Status (res c) of
               PStr s \<Rightarrow> if startswith s ''Up'' then PStr ''Up (Slow)'' else PStr s
             | v \<Rightarrow> v)
          else Status (res c)
      | None \<Rightarrow> Status (res c))"
  by (simp add: mark_slow_def split: option.splits pyval.splits)

lemma from_ssl_fields [simp]:
  "HTTP_Time_ms (fst (check_site_from_ssl cfg lib site p c)) = HTTP_Time_ms (res c)"
  "Ping_ms (fst (check_site_from_ssl cfg lib site p c)) = Ping_ms (res c)"
  "Redirects (fst (check_site_from_ssl cfg lib site p c)) = Redirects (res c)"
  "Keyword_Check (fst (check_site_from_ssl cfg lib site p c)) = Keyword_Check (res c)"
  "Domain_Days_Left (fst (check_site_from_ssl cfg lib site p c)) =
     snd (get_domain_expiry cfg (whois_now_us p) (whois_reply p))"
  "Domain_Expiry_Date (fst (check_site_from_ssl cfg lib site p c)) =
     (case fst (get_domain_expiry cfg (whois_now_us p) (whois_reply p)) of
        Some d \<Rightarrow> PStr (isoformat lib d) | None \<Rightarrow> Domain_Expiry_Date (res c))"
  by (simp_all add: check_site_from_ssl_def Let_def cong: option.case_cong)

lemma from_ssl_Status:
  "Status (fst (check_site_from_ssl cfg lib site p c)) =
     (case numeric_of (HTTP_Time_ms (res c)) of
        Some x \<Rightarrow>
          if RESPONSE_TIME_THRESHOLD cfg < x then
            (case Status (res c) of
               PStr s \<Rightarrow> if startswith s ''Up'' then PStr ''Up (Slow)'' else PStr s
             | v \<Rightarrow> v)
          else Status (res c)
      | None \<Rightarrow> Status (res c))"
  by (simp add: check_site_from_ssl_def Let_def mark_slow_Status cong: option.case_cong pyval.case_cong if_cong)

lemma from_ssl_trace:
  "snd (check_site_from_ssl cfg lib site p c) =
     trace c @ [TlsConnect (get_hostname lib (dict_get site ''url'' (PStr [])))]
       @ (if whois_lookup cfg then [WhoisQuery (get_hostname lib (dict_get site ''url'' (PStr [])))] else [])"
  by (simp add: check_site_from_ssl_def Let_def)

lemma domain_probe_notes:
  "sublist x (notes_acc c) \<Longrightarrow> sublist x (notes_acc (domain_probe cfg lib p h c))"
  by (auto simp: domain_probe_def Let_def sublist_append_right split: prod.splits option.splits)

lemma from_ssl_note:
  assumes "x \<noteq> []" "\<not> is_space (hd x)" "\<not> is_space (last x)" "sublist x (notes_acc c)"
  shows "note_in x (Notes (fst (check_site_from_ssl cfg lib site p c)))"
  using assms
  by (simp add: check_site_from_ssl_def Let_def note_in_def sublist_py_strip domain_probe_notes ssl_probe_notes)

lemma to_http_SomeD:
  assumes "check_site_to_http cfg lib site p = Inr (Some c3)"
  obtains timeout expected c0 where
    "py_bool (dict_get site ''enabled'' (PBool True))"
    "py_int (dict_get site ''timeout'' (PInt (DEFAULT_TIMEOUT cfg))) = Inr timeout"
    "py_int (dict_get site ''expected_status'' (PInt 200)) = Inr expected"
    "c0 = \<lparr>res = initial_results p (dict_get site ''name'' (PStr [])) (dict_get site ''url'' (PStr [])),
           notes_acc = [], trace = []\<rparr>"
    "http_probe lib p site (dict_get site ''name'' (PStr [])) (dict_get site ''url'' (PStr []))
       timeout expected
       (py_bool (dict_get site ''check_keyword'' (PBool (py_bool (dict_get site ''keyword'' PNone)))))
       (icmp_probe p (py_bool (dict_get site ''use_icmp'' (PBool (USE_ICMP_BY_DEFAULT cfg))))
          (case dns_answer p of DnsAnswer secs ip \<Rightarrow> Some ip | DnsRaises \<Rightarrow> None)
          (snd (dns_probe p (get_hostname lib (dict_get site ''url'' (PStr []))) c0))) = Inr c3"
  using assms
  by (auto simp: check_site_to_http_def Let_def split_beta split: if_splits sum.splits)

lemma to_http_disabled:
  "\<not> py_bool (dict_get site ''enabled'' (PBool True)) \<Longrightarrow> check_site_to_http cfg lib site p = Inr None"
  by (simp add: check_site_to_http_def Let_def)

section \<open>The state at the end of the HTTP block, and the round\<close>

lemma to_http_response:
  assumes "check_site_to_http cfg lib site p = Inr (Some c3)" "http_reply p = Response r"
    and "py_int (dict_get site ''expected_status'' (PInt 200)) = Inr expected"
  shows "HTTP_Time_ms (res c3) = PFloat (py_round2 (real (elapsed_us r) / 1000000 * 1000))"
    and "Redirects (res c3) = PInt (int (history_len r))"
    and "Status (res c3) = (if status_code r = expected then PStr ''Up''
           else PStr (''Down ('' @ str_of_int (status_code r) @ '')''))"
    and "status_code r \<noteq> expected \<Longrightarrow>
           SendEmail (alert_subject lib (dict_get site ''name'' (PStr [])))
             (status_body lib p (dict_get site ''name'' (PStr [])) (dict_get site ''url'' (PStr [])) (status_code r))
           \<in> set (trace c3)"
    and "status_code r \<noteq> expected \<Longrightarrow>
           sublist (''Expected status '' @ str_of_int expected @ '', but got '' @ str_of_int (status_code r) @ ''.'') (notes_acc c3)"
proof -
  from assms(1) obtain timeout expected' c2 where
    e: "py_int (dict_get site ''expected_status'' (PInt 200)) = Inr expected'"
    and h: "http_probe lib p site (dict_get site ''name'' (PStr [])) (dict_get site ''url'' (PStr []))
       timeout expected'
       (py_bool (dict_get site ''check_keyword'' (PBool (py_bool (dict_get site ''keyword'' PNone))))) c2 = Inr c3"
    by (auto elim!: to_http_SomeD)
  from e assms(3) have "expected' = expected" by simp
  note h' = h [unfolded this]
  show "HTTP_Time_ms (res c3) = PFloat (py_round2 (real (elapsed_us r) / 1000000 * 1000))"
    by (rule http_probe_Response(1) [OF assms(2) h'])
  show "Redirects (res c3) = PInt (int (history_len r))"
    by (rule http_probe_Response(2) [OF assms(2) h'])
  show "Status (res c3) = (if status_code r = expected then PStr ''Up''
           else PStr (''Down ('' @ str_of_int (status_code r) @ '')''))"
    by (rule http_probe_Response(4) [OF assms(2) h'])
  show "SendEmail (alert_subject lib (dict_get site ''name'' (PStr [])))
             (status_body lib p (dict_get site ''name'' (PStr [])) (dict_get site ''url'' (PStr [])) (status_code r))
           \<in> set (trace c3)" if "status_code r \<noteq> expected"
    by (rule http_probe_Response(5) [OF assms(2) h' that])
  show "sublist (''Expected status '' @ str_of_int expected @ '', but got '' @ str_of_int (status_code r) @ ''.'') (notes_acc c3)"
    if "status_code r \<noteq> expected"
    by (rule http_probe_Response(6) [OF assms(2) h' that])
qed

lemma to_http_not_uncaught:
  assumes "check_site_to_http cfg lib site p = Inr (Some c3)"
  shows "http_reply p \<noteq> UncaughtException e"
proof
  assume u: "http_reply p = UncaughtException e"
  from assms show False
    by (auto elim!: to_http_SomeD simp: http_probe_Uncaught [OF u])
qed

lemma to_http_failed:
  assumes "check_site_to_http cfg lib site p = Inr (Some c3)" "http_reply p = RequestException e"
  shows "HTTP_Time_ms (res c3) = PStr ''Failed''"
    and "Redirects (res c3) = PInt 0"
    and "Keyword_Check (res c3) = PStr ''Skipped''"
    and "Status (res c3) = PStr ''Down (HTTP Error)''"
    and "SendEmail (alert_subject lib (dict_get site ''name'' (PStr [])))
           (unreachable_body lib p (dict_get site ''name'' (PStr [])) (dict_get site ''url'' (PStr [])) e)
         \<in> set (trace c3)"
    and "sublist ''HTTP request failed.'' (notes_acc c3)"
proof -
  from assms(1) obtain timeout expected c0 c2 where
    c0: "c0 = \<lparr>res = initial_results p (dict_get site ''name'' (PStr [])) (dict_get site ''url'' (PStr [])),
           notes_acc = [], trace = []\<rparr>"
    and c2: "c2 = icmp_probe p (py_bool (dict_get site ''use_icmp'' (PBool (USE_ICMP_BY_DEFAULT cfg))))
          (case dns_answer p of DnsAnswer secs ip \<Rightarrow> Some ip | DnsRaises \<Rightarrow> None)
          (snd (dns_probe p (get_hostname lib (dict_get site ''url'' (PStr []))) c0))"
    and h: "http_probe lib p site (dict_get site ''name'' (PStr [])) (dict_get site ''url'' (PStr []))
       timeout expected
       (py_bool (dict_get site ''check_keyword'' (PBool (py_bool (dict_get site ''keyword'' PNone))))) c2 = Inr c3"
    by (auto elim!: to_http_SomeD)
  have c3: "c3 = c2\<lparr>trace := trace c2 @ [HttpGet (dict_get site ''url'' (PStr [])) timeout,
                 SendEmail (alert_subject lib (dict_get site ''name'' (PStr [])))
                   (unreachable_body lib p (dict_get site ''name'' (PStr [])) (dict_get site ''url'' (PStr [])) e)],
            res := (res c2)\<lparr>Status := PStr ''Down (HTTP Error)''\<rparr>,
            notes_acc := notes_acc c2 @ ''HTTP request failed. ''\<rparr>"
    using h unfolding http_probe_RequestException [OF assms(2)] by simp
  show "HTTP_Time_ms (res c3) = PStr ''Failed''"
    by (simp add: c3 c2 c0 initial_results_def)
  show "Redirects (res c3) = PInt 0"
    by (simp add: c3 c2 c0 initial_results_def)
  show "Keyword_Check (res c3) = PStr ''Skipped''"
    by (simp add: c3 c2 c0 initial_results_def)
  show "Status (res c3) = PStr ''Down (HTTP Error)''"
    by (simp add: c3)
  show "SendEmail (alert_subject lib (dict_get site ''name'' (PStr [])))
           (unreachable_body lib p (dict_get site ''name'' (PStr [])) (dict_get site ''url'' (PStr [])) e)
         \<in> set (trace c3)"
    by (simp add: c3)
  have "notes_acc c3 = notes_acc c2 @ ''HTTP request failed.'' @ '' ''"
    by (simp add: c3)
  then show "sublist ''HTTP request failed.'' (notes_acc c3)"
    by (simp only: sublist_appendI)
qed

lemma http_probe_keeps:
  assumes "http_probe lib p site name url timeout expected flag c = Inr c3"
  shows "Ping_ms (res c3) = Ping_ms (res c)"
    and "filter is_ping (trace c3) = filter is_ping (trace c)"
    and "sublist x (notes_acc c) \<Longrightarrow> sublist x (notes_acc c3)"
    and "Domain_Expiry_Date (res c3) = Domain_Expiry_Date (res c)"
proof -
  have "Ping_ms (res c3) = Ping_ms (res c) \<and> filter is_ping (trace c3) = filter is_ping (trace c)
      \<and> (sublist x (notes_acc c) \<longrightarrow> sublist x (notes_acc c3))
      \<and> Domain_Expiry_Date (res c3) = Domain_Expiry_Date (res c)"
  proof (cases "http_reply p")
    case (RequestException e)
    from assms [unfolded http_probe_RequestException [OF RequestException]]
    show ?thesis by (auto simp: sublist_append_right)
  next
    case (UncaughtException e)
    with assms show ?thesis by (simp add: http_probe_Uncaught)
  next
    case (Response r)
    from http_probe_Response(3,7,8,9) [OF Response assms] show ?thesis by blast
  qed
  then show "Ping_ms (res c3) = Ping_ms (res c)"
    and "filter is_ping (trace c3) = filter is_ping (trace c)"
    and "sublist x (notes_acc c) \<Longrightarrow> sublist x (notes_acc c3)"
    and "Domain_Expiry_Date (res c3) = Domain_Expiry_Date (res c)"
    by blast+
qed


lemma to_http_ping:
  assumes "check_site_to_http cfg lib site p = Inr (Some c3)"
  shows "Ping_ms (res c3) =
           (if use_icmp_of cfg site \<and> ip_resolved p then
              (case ping_reply p of
                 PingHost alive (Some rtt) \<Rightarrow> if alive then PFloat (py_round2 rtt) else PStr ''Failed''
               | PingHost alive None \<Rightarrow> PStr ''Failed''
               | PingRaises \<Rightarrow> PStr ''Error'')
            else PStr ''N/A'')"
    and "filter is_ping (trace c3) =
           (if use_icmp_of cfg site \<and> ip_resolved p
            then (case dns_answer p of DnsAnswer secs ip \<Rightarrow> [IcmpPing ip] | DnsRaises \<Rightarrow> []) else [])"
    and "Ping_ms (res c3) = PStr ''Error'' \<Longrightarrow> sublist ''ICMP ping failed.'' (notes_acc c3)"
proof -
  from assms obtain timeout expected c0 c2 where
    c0: "c0 = \<lparr>res = initial_results p (dict_get site ''name'' (PStr [])) (dict_get site ''url'' (PStr [])),
           notes_acc = [], trace = []\<rparr>"
    and c2: "c2 = icmp_probe p (py_bool (dict_get site ''use_icmp'' (PBool (USE_ICMP_BY_DEFAULT cfg))))
          (case dns_answer p of DnsAnswer secs ip \<Rightarrow> Some ip | DnsRaises \<Rightarrow> None)
          (snd (dns_probe p (get_hostname lib (dict_get site ''url'' (PStr []))) c0))"
    and h: "http_probe lib p site (dict_get site ''name'' (PStr [])) (dict_get site ''url'' (PStr []))
       timeout expected
       (py_bool (dict_get site ''check_keyword'' (PBool (py_bool (dict_get site ''keyword'' PNone))))) c2 = Inr c3"
    by (auto elim!: to_http_SomeD)
  note k = http_probe_keeps [OF h]
  show "Ping_ms (res c3) =
           (if use_icmp_of cfg site \<and> ip_resolved p then
              (case ping_reply p of
                 PingHost alive (Some rtt) \<Rightarrow> if alive then PFloat (py_round2 rtt) else PStr ''Failed''
               | PingHost alive None \<Rightarrow> PStr ''Failed''
               | PingRaises \<Rightarrow> PStr ''Error'')
            else PStr ''N/A'')"
    unfolding k(1) c2 icmp_probe_Ping
    by (simp add: use_icmp_of_def ip_resolved_def split: dns_outcome.splits list.splits)
  show "filter is_ping (trace c3) =
           (if use_icmp_of cfg site \<and> ip_resolved p
            then (case dns_answer p of DnsAnswer secs ip \<Rightarrow> [IcmpPing ip] | DnsRaises \<Rightarrow> []) else [])"
    unfolding k(2) c2 icmp_probe_trace
    by (simp add: c0 use_icmp_of_def ip_resolved_def split: dns_outcome.splits list.splits)
  show "sublist ''ICMP ping failed.'' (notes_acc c3)" if "Ping_ms (res c3) = PStr ''Error''"
  proof -
    from that have "Ping_ms (res c2) = PStr ''Error''" by (simp add: k(1))
    then have "sublist ''ICMP ping failed.'' (notes_acc c2)"
      unfolding c2 by (rule icmp_probe_Error_note)
    then show ?thesis by (rule k(3))
  qed
qed

lemma to_http_whois_irrelevant [simp]:
  "check_site_to_http (cfg\<lparr>whois_lookup := b\<rparr>) lib site p = check_site_to_http cfg lib site p"
  by (simp add: check_site_to_http_def Let_def split_beta cong: sum.case_cong)

lemma run_checks_append:
  "run_checks_and_log cfg lib (xs @ ys) = run_checks_and_log cfg lib xs @ run_checks_and_log cfg lib ys"
  by (induction xs) (auto split: sum.splits option.splits)




lemma check_site_SomeE:
  assumes "check_site cfg lib site p = Inr (Some (r, t))"
  obtains c3 where "check_site_to_http cfg lib site p = Inr (Some c3)"
    and "r = fst (check_site_from_ssl cfg lib site p c3)"
    and "t = snd (check_site_from_ssl cfg lib site p c3)"
  using assms unfolding check_site_Some by (metis fst_conv snd_conv)

section \<open>The example inputs evaluated\<close>

lemma str_of_int_200: "str_of_int 200 = ''200''"
  by code_simp

lemma str_of_int_503: "str_of_int 503 = ''503''"
  by code_simp

lemma ex_keyword_found: "sublist (py_lower ''Odisha'') (py_lower ''Welcome to ODISHA forest'') = True"
  by code_simp

lemmas ex_defs =
  ex_cfg_def ex_lib_def ex_site_def ex_resp_def ex_up_def ex_down_def ex_slow_def ex_503_def
  ex_pingerr_def ex_nodate_def ex_row_nodate_def ex_row_up_def ex_row_down_def ex_row_slow_def ex_row_503_def ex_row_pingerr_def
  ex_trace_up_def ex_trace_down_def ex_trace_503_def

lemmas run_defs =
  check_site_def check_site_to_http_def check_site_from_ssl_def dict_get_def Let_def
  get_hostname_def initial_results_def dns_probe_def icmp_probe_def http_probe_def keyword_check_def
  send_email_def alert_subject_def unreachable_body_def status_body_def sq_def ssl_probe_def
  domain_probe_def get_domain_expiry_def to_utc_def day_us_def mark_slow_def numeric_of_def
  startswith_def py_strip_def is_space_def py_round2_def
  str_of_int_200 str_of_int_503 ex_keyword_found

lemma ex_up_eval: "check_site ex_cfg ex_lib ex_site ex_up = Inr (Some (ex_row_up, ex_trace_up))"
  by (simp add: ex_defs run_defs)

lemma ex_slow_eval: "check_site ex_cfg ex_lib ex_site ex_slow = Inr (Some (ex_row_slow, ex_trace_up))"
  by (simp add: ex_defs run_defs)


lemma ex_pingerr_eval: "check_site ex_cfg ex_lib ex_site ex_pingerr = Inr (Some (ex_row_pingerr, ex_trace_up))"
  by (simp add: ex_defs run_defs)

lemma ex_down_eval: "check_site ex_cfg ex_lib ex_site ex_down = Inr (Some (ex_row_down, ex_trace_down))"
  by (simp add: ex_defs run_defs)


section \<open>The HTTP time cell\<close>


section \<open>The slow mark\<close>

text \<open>
  C2. The Status of an emitted record is \<open>Up (Slow)\<close> exactly when the Status left by the
  HTTP block begins with \<open>Up\<close>, the cell \<open>HTTP Time (ms)\<close> holds a number and not a sentinel
  string, and that number is greater than the configured threshold.
\<close>

theorem up_slow_iff:
  assumes "check_site cfg lib site p = Inr (Some (r, t))"
  shows "(Status r = PStr ''Up (Slow)'') =
           (\<exists>s x. http_status cfg lib site p = PStr s \<and> startswith s ''Up''
                  \<and> HTTP_Time_ms r = PFloat x \<and> RESPONSE_TIME_THRESHOLD cfg < x)"
proof -
  from assms obtain c3 where c3: "check_site_to_http cfg lib site p = Inr (Some c3)"
    and r: "r = fst (check_site_from_ssl cfg lib site p c3)"
    and t: "t = snd (check_site_from_ssl cfg lib site p c3)"
    by (rule check_site_SomeE)
  have hs: "http_status cfg lib site p = Status (res c3)"
    by (simp add: http_status_def c3)
  have time: "HTTP_Time_ms r = HTTP_Time_ms (res c3)"
    by (simp add: r)
  have st: "Status r =
     (case numeric_of (HTTP_Time_ms (res c3)) of
        Some x \<Rightarrow>
          if RESPONSE_TIME_THRESHOLD cfg < x then
            (case Status (res c3) of
               PStr s \<Rightarrow> if startswith s ''Up'' then PStr ''Up (Slow)'' else PStr s
             | v \<Rightarrow> v)
          else Status (res c3)
      | None \<Rightarrow> Status (res c3))"
    unfolding r by (rule from_ssl_Status)
  show ?thesis
  proof (cases "http_reply p")
    case (RequestException e)
    from to_http_failed(1,4) [OF c3 RequestException] show ?thesis
      by (simp add: st hs time numeric_of_def startswith_def)
  next
    case (UncaughtException e)
    with to_http_not_uncaught [OF c3] show ?thesis by blast
  next
    case (Response resp)
    from c3 obtain expected where "py_int (dict_get site ''expected_status'' (PInt 200)) = Inr expected"
      by (auto elim!: to_http_SomeD)
    from to_http_response(1,3) [OF c3 Response this] show ?thesis
      by (simp add: st hs time numeric_of_def startswith_def)
  qed
qed

theorem up_slow_iff_witness:
  "check_site ex_cfg ex_lib ex_site ex_slow = Inr (Some (ex_row_slow, ex_trace_up))
   \<and> Status ex_row_slow = PStr ''Up (Slow)''
   \<and> (\<exists>s x. http_status ex_cfg ex_lib ex_site ex_slow = PStr s \<and> startswith s ''Up''
          \<and> HTTP_Time_ms ex_row_slow = PFloat x \<and> RESPONSE_TIME_THRESHOLD ex_cfg < x)
   \<and> check_site ex_cfg ex_lib ex_site ex_up = Inr (Some (ex_row_up, ex_trace_up))
   \<and> Status ex_row_up = PStr ''Up''
   \<and> \<not> (\<exists>s x. http_status ex_cfg ex_lib ex_site ex_up = PStr s \<and> startswith s ''Up''
          \<and> HTTP_Time_ms ex_row_up = PFloat x \<and> RESPONSE_TIME_THRESHOLD ex_cfg < x)"
  using up_slow_iff [OF ex_slow_eval] up_slow_iff [OF ex_up_eval] ex_slow_eval ex_up_eval
  by (simp add: ex_row_slow_def ex_row_up_def)
section \<open>The reachability probe\<close>

text \<open>
  C3. When the DNS lookup raises and \<open>use_icmp\<close> is enabled, no ping is sent, and the
  cell \<open>Ping (ms)\<close> of the emitted record is \<open>N/A\<close>: the \<open>else\<close> branch of the ICMP block
  overwrites the initial \<open>Failed\<close>.
\<close>

theorem no_ip_ping_skipped:
  assumes "check_site cfg lib site p = Inr (Some (r, t))"
    and "dns_answer p = DnsRaises" and "use_icmp_of cfg site"
  shows "Ping_ms r = PStr ''N/A'' \<and> filter is_ping t = []"
proof -
  from assms(1) obtain c3 where c3: "check_site_to_http cfg lib site p = Inr (Some c3)"
    and r: "r = fst (check_site_from_ssl cfg lib site p c3)"
    and t: "t = snd (check_site_from_ssl cfg lib site p c3)"
    by (rule check_site_SomeE)
  have "Ping_ms r = Ping_ms (res c3)"
    by (simp add: r)
  moreover have "filter is_ping t = filter is_ping (trace c3)"
    by (simp add: t from_ssl_trace)
  ultimately show ?thesis
    using to_http_ping(1,2) [OF c3] assms(2) by (simp add: ip_resolved_def)
qed

theorem no_ip_ping_skipped_witness:
  "check_site ex_cfg ex_lib ex_site ex_down = Inr (Some (ex_row_down, ex_trace_down))
   \<and> dns_answer ex_down = DnsRaises \<and> use_icmp_of ex_cfg ex_site
   \<and> Ping_ms ex_row_down = PStr ''N/A'' \<and> filter is_ping ex_trace_down = []"
proof -
  have d: "dns_answer ex_down = DnsRaises"
    by (simp add: ex_down_def)
  have u: "use_icmp_of ex_cfg ex_site"
    by (simp add: use_icmp_of_def ex_site_def dict_get_def)
  from no_ip_ping_skipped [OF ex_down_eval d u] ex_down_eval d u show ?thesis
    by simp
qed

text \<open>
  The cell does not stay \<open>Failed\<close>: the record of the unreachable example site, whose DNS
  lookup raises with \<open>use_icmp\<close> enabled, reads \<open>N/A\<close>.
\<close>

theorem ping_stays_Failed_counterexample:
  "check_site ex_cfg ex_lib ex_site ex_down = Inr (Some (ex_row_down, ex_trace_down))
   \<and> dns_answer ex_down = DnsRaises \<and> use_icmp_of ex_cfg ex_site
   \<and> Ping_ms ex_row_down \<noteq> PStr ''Failed''"
  using ex_down_eval
  by (simp add: ex_down_def use_icmp_of_def ex_site_def dict_get_def ex_row_down_def)

text \<open>
  C4. The cell \<open>Ping (ms)\<close> is \<open>N/A\<close> when \<open>use_icmp\<close> is disabled or no address was
  resolved; otherwise it is the rounded round-trip time when the reply is alive and carries an
  average round-trip time, \<open>Failed\<close> when it is not, and \<open>Error\<close>, with the note
  \<open>ICMP ping failed.\<close>, when the ping raises.
\<close>

theorem ping_cell_outcomes:
  assumes "check_site cfg lib site p = Inr (Some (r, t))"
  shows "Ping_ms r =
           (if use_icmp_of cfg site \<and> ip_resolved p then
              (case ping_reply p of
                 PingHost alive (Some rtt) \<Rightarrow> if alive then PFloat (py_round2 rtt) else PStr ''Failed''
               | PingHost alive None \<Rightarrow> PStr ''Failed''
               | PingRaises \<Rightarrow> PStr ''Error'')
            else PStr ''N/A'')
         \<and> (use_icmp_of cfg site \<and> ip_resolved p \<and> ping_reply p = PingRaises
              \<longrightarrow> note_in ''ICMP ping failed.'' (Notes r))"
proof -
  from assms(1) obtain c3 where c3: "check_site_to_http cfg lib site p = Inr (Some c3)"
    and r: "r = fst (check_site_from_ssl cfg lib site p c3)"
    and t: "t = snd (check_site_from_ssl cfg lib site p c3)"
    by (rule check_site_SomeE)
  have eq: "Ping_ms r = Ping_ms (res c3)"
    by (simp add: r)
  have err: "note_in ''ICMP ping failed.'' (Notes r)" if "Ping_ms (res c3) = PStr ''Error''"
  proof -
    have "sublist ''ICMP ping failed.'' (notes_acc c3)"
      using that by (rule to_http_ping(3) [OF c3])
    then show ?thesis
      unfolding r by (intro from_ssl_note) (simp_all add: is_space_def)
  qed
  show ?thesis
    using to_http_ping(1) [OF c3] err by (simp add: eq)
qed

theorem ping_cell_outcomes_witness:
  "check_site ex_cfg ex_lib ex_site ex_pingerr = Inr (Some (ex_row_pingerr, ex_trace_up))
   \<and> use_icmp_of ex_cfg ex_site \<and> ip_resolved ex_pingerr \<and> ping_reply ex_pingerr = PingRaises
   \<and> Ping_ms ex_row_pingerr = PStr ''Error'' \<and> note_in ''ICMP ping failed.'' (Notes ex_row_pingerr)
   \<and> check_site ex_cfg ex_lib ex_site ex_up = Inr (Some (ex_row_up, ex_trace_up))
   \<and> ip_resolved ex_up \<and> ping_reply ex_up = PingHost True (Some (12346 / 1000))
   \<and> Ping_ms ex_row_up = PFloat (py_round2 (12346 / 1000))
   \<and> check_site ex_cfg ex_lib ex_site ex_down = Inr (Some (ex_row_down, ex_trace_down))
   \<and> \<not> ip_resolved ex_down \<and> Ping_ms ex_row_down = PStr ''N/A''"
proof -
  have u: "use_icmp_of ex_cfg ex_site"
    by (simp add: use_icmp_of_def ex_site_def dict_get_def)
  have i: "ip_resolved ex_pingerr" "ip_resolved ex_up" "\<not> ip_resolved ex_down"
    by (simp_all add: ip_resolved_def ex_pingerr_def ex_up_def ex_down_def)
  have q: "ping_reply ex_pingerr = PingRaises" "ping_reply ex_up = PingHost True (Some (12346 / 1000))"
    by (simp_all add: ex_pingerr_def ex_up_def)
  from ping_cell_outcomes [OF ex_pingerr_eval] ping_cell_outcomes [OF ex_up_eval]
    ping_cell_outcomes [OF ex_down_eval] ex_pingerr_eval ex_up_eval ex_down_eval u i q
  show ?thesis
    by simp
qed
section \<open>The HTTP probe\<close>



text \<open>
  C6. When the GET raises a request exception, the emitted record has Status
  \<open>Down (HTTP Error)\<close>, the cell \<open>HTTP Time (ms)\<close> still holds \<open>Failed\<close>, the note
  \<open>HTTP request failed.\<close> is in Notes, and an alert with subject and body is sent.
\<close>

theorem request_failure_record:
  assumes "check_site cfg lib site p = Inr (Some (r, t))"
    and "http_reply p = RequestException e"
  shows "Status r = PStr ''Down (HTTP Error)'' \<and> HTTP_Time_ms r = PStr ''Failed''
         \<and> note_in ''HTTP request failed.'' (Notes r)
         \<and> SendEmail (alert_subject lib (dict_get site ''name'' (PStr [])))
               (unreachable_body lib p (dict_get site ''name'' (PStr []))
                  (dict_get site ''url'' (PStr [])) e) \<in> set t"
proof -
  from assms(1) obtain c3 where c3: "check_site_to_http cfg lib site p = Inr (Some c3)"
    and r: "r = fst (check_site_from_ssl cfg lib site p c3)"
    and t: "t = snd (check_site_from_ssl cfg lib site p c3)"
    by (rule check_site_SomeE)
  note f = to_http_failed [OF c3 assms(2)]
  have "Status r = PStr ''Down (HTTP Error)''"
    unfolding r from_ssl_Status by (simp add: f(1,4) numeric_of_def)
  moreover have "HTTP_Time_ms r = PStr ''Failed''"
    by (simp add: r f(1))
  moreover have "note_in ''HTTP request failed.'' (Notes r)"
    unfolding r using f(6) by (intro from_ssl_note) (simp_all add: is_space_def)
  moreover have "SendEmail (alert_subject lib (dict_get site ''name'' (PStr [])))
               (unreachable_body lib p (dict_get site ''name'' (PStr []))
                  (dict_get site ''url'' (PStr [])) e) \<in> set t"
    using f(5) by (simp add: t from_ssl_trace)
  ultimately show ?thesis by blast
qed

theorem request_failure_record_witness:
  "check_site ex_cfg ex_lib ex_site ex_down = Inr (Some (ex_row_down, ex_trace_down))
   \<and> http_reply ex_down = RequestException ''timed out''
   \<and> Status ex_row_down = PStr ''Down (HTTP Error)'' \<and> HTTP_Time_ms ex_row_down = PStr ''Failed''
   \<and> note_in ''HTTP request failed.'' (Notes ex_row_down)
   \<and> SendEmail (alert_subject ex_lib (PStr ''forest''))
         (unreachable_body ex_lib ex_down (PStr ''forest'') (PStr ''https://example.org/home'')
            ''timed out'') \<in> set ex_trace_down"
proof -
  have h: "http_reply ex_down = RequestException ''timed out''"
    by (simp add: ex_down_def)
  from request_failure_record [OF ex_down_eval h] ex_down_eval h show ?thesis
    by (simp add: ex_site_def dict_get_def)
qed

text \<open>
  C9. When the GET raises a request exception, the cell \<open>Keyword Check\<close> of the emitted
  record is \<open>Skipped\<close>, whatever keyword and check-keyword flag the site configures.
\<close>

theorem keyword_skipped_on_request_failure:
  assumes "check_site cfg lib site p = Inr (Some (r, t))"
    and "http_reply p = RequestException e"
  shows "Keyword_Check r = PStr ''Skipped''"
proof -
  from assms(1) obtain c3 where c3: "check_site_to_http cfg lib site p = Inr (Some c3)"
    and r: "r = fst (check_site_from_ssl cfg lib site p c3)"
    by (rule check_site_SomeE)
  from to_http_failed(3) [OF c3 assms(2)] show ?thesis
    by (simp add: r)
qed

theorem keyword_skipped_on_request_failure_witness:
  "check_site ex_cfg ex_lib ex_site ex_down = Inr (Some (ex_row_down, ex_trace_down))
   \<and> http_reply ex_down = RequestException ''timed out''
   \<and> ex_site ''keyword'' = Some (PStr ''Odisha'') \<and> ex_site ''check_keyword'' = Some (PBool True)
   \<and> Keyword_Check ex_row_down = PStr ''Skipped''"
proof -
  have h: "http_reply ex_down = RequestException ''timed out''"
    by (simp add: ex_down_def)
  from keyword_skipped_on_request_failure [OF ex_down_eval h] ex_down_eval h show ?thesis
    by (simp add: ex_site_def)
qed

text \<open>
  C10. The cell \<open>Redirects\<close> of an emitted record is the length of the redirect history
  when the GET returned a response and the integer 0 when the request raised: the same cell
  as after a response that followed no redirect.
\<close>

theorem redirects_zero_on_failure:
  assumes "check_site cfg lib site p = Inr (Some (r, t))"
  shows "Redirects r =
           (case http_reply p of
              Response resp \<Rightarrow> PInt (int (history_len resp))
            | _ \<Rightarrow> PInt 0)"
proof -
  from assms obtain c3 where c3: "check_site_to_http cfg lib site p = Inr (Some c3)"
    and r: "r = fst (check_site_from_ssl cfg lib site p c3)"
    by (rule check_site_SomeE)
  have eq: "Redirects r = Redirects (res c3)"
    by (simp add: r)
  show ?thesis
  proof (cases "http_reply p")
    case (RequestException e)
    with to_http_failed(2) [OF c3 RequestException] eq show ?thesis by simp
  next
    case (UncaughtException e)
    with to_http_not_uncaught [OF c3] show ?thesis by blast
  next
    case (Response resp)
    from c3 obtain expected where "py_int (dict_get site ''expected_status'' (PInt 200)) = Inr expected"
      by (auto elim!: to_http_SomeD)
    from to_http_response(2) [OF c3 Response this] eq Response show ?thesis
      by simp
  qed
qed

theorem redirects_zero_on_failure_witness:
  "check_site ex_cfg ex_lib ex_site ex_down = Inr (Some (ex_row_down, ex_trace_down))
   \<and> Redirects ex_row_down = PInt 0
   \<and> check_site ex_cfg ex_lib ex_site ex_up = Inr (Some (ex_row_up, ex_trace_up))
   \<and> history_len ex_resp = 0 \<and> Redirects ex_row_up = PInt 0"
  using redirects_zero_on_failure [OF ex_down_eval] redirects_zero_on_failure [OF ex_up_eval]
    ex_down_eval ex_up_eval
  by (simp add: ex_row_down_def ex_row_up_def ex_resp_def)
section \<open>The domain expiry probe and the round\<close>



text \<open>
  C8. A site whose \<open>enabled\<close> is false gets no record: \<open>check_site\<close> returns \<open>None\<close> for it,
  and the round with the site in its list yields the rows of the round without it.
\<close>

theorem disabled_site_no_record:
  assumes "site ''enabled'' = Some (PBool False)"
  shows "check_site cfg lib site p = Inr None
         \<and> run_checks_and_log cfg lib (xs @ (site, p) # ys) = run_checks_and_log cfg lib (xs @ ys)"
proof -
  from assms have "\<not> py_bool (dict_get site ''enabled'' (PBool True))"
    by (simp add: dict_get_def)
  then have none: "check_site cfg lib site p = Inr None"
    by (simp add: check_site_def to_http_disabled)
  then have "run_checks_and_log cfg lib ((site, p) # ys) = run_checks_and_log cfg lib ys"
    by simp
  with none show ?thesis
    by (simp add: run_checks_append [of cfg lib xs])
qed

theorem disabled_site_no_record_witness:
  "ex_site_disabled ''enabled'' = Some (PBool False)
   \<and> check_site ex_cfg ex_lib ex_site_disabled ex_up = Inr None
   \<and> run_checks_and_log ex_cfg ex_lib ([(ex_site, ex_down)] @ (ex_site_disabled, ex_up) # [(ex_site, ex_up)])
       = [ex_row_down, ex_row_up]"
proof -
  have d: "ex_site_disabled ''enabled'' = Some (PBool False)"
    by (simp add: ex_site_disabled_def)
  from disabled_site_no_record [where site = ex_site_disabled and cfg = ex_cfg and lib = ex_lib
      and p = ex_up and xs = "[(ex_site, ex_down)]" and ys = "[(ex_site, ex_up)]", OF d] d
  show ?thesis
    by (simp add: ex_down_eval ex_up_eval)
qed

end
